theory Spec2Isabelle
  imports Main "HOL-Library.Multiset"
begin

section \<open>Data model\<close>

text \<open>
  The service of \<^verbatim>\<open>src/index.js\<close> keeps one MongoDB collection, \<^verbatim>\<open>schools\<close>.
  A school document has a \<^verbatim>\<open>schoolId\<close>, an array \<^verbatim>\<open>students\<close> and further
  top-level fields (\<^verbatim>\<open>name\<close>, \<^verbatim>\<open>address\<close>, \<^verbatim>\<open>city\<close>); a student is an object
  with a \<^verbatim>\<open>studentId\<close> and further fields (\<^verbatim>\<open>name\<close>, \<^verbatim>\<open>age\<close>, \<^verbatim>\<open>email\<close>).
  The identifiers are strings, as in \<^verbatim>\<open>populateDB\<close> and in the request path; the
  remaining fields are kept as an association list from field name to JSON value, in
  the order the object literal gives them. Numbers are the integers that the seed
  data and the examples use. The \<^verbatim>\<open>_id\<close> that the driver adds on insertion is
  left out.
\<close>

datatype json =
    JNull
  | JBool bool
  | JNum int
  | JStr string
  | JArr "json list"
  | JObj "(string \<times> json) list"

record student =
  studentId :: string
  attrs :: "(string \<times> json) list"

record school =
  schoolId :: string
  students :: "student list"
  other :: "(string \<times> json) list"

type_synonym collection = "school list"

section \<open>The store commands the service sends\<close>

text \<open>
  \<^verbatim>\<open>UpdateOne sid st\<close> stands for the one command of the PUT handler,
  \<^verbatim>\<open>updateOne({schoolId: sid, "students.studentId": st.studentId}, {$set: {"students.$": st}})\<close>;
  \<^verbatim>\<open>Drop\<close> and \<^verbatim>\<open>InsertOne\<close> are the two commands of \<^verbatim>\<open>populateDB\<close>.
\<close>

datatype op =
    Drop
  | InsertOne school
  | UpdateOne string student

text \<open>
  The filter of the update: the document has the given \<^verbatim>\<open>schoolId\<close> and its
  \<^verbatim>\<open>students\<close> array holds an element with the given \<^verbatim>\<open>studentId\<close>.
\<close>

definition matches :: "string \<Rightarrow> string \<Rightarrow> school \<Rightarrow> bool" where
  "matches sid k d = (schoolId d = sid \<and> k \<in> set (map studentId (students d)))"

text \<open>
  \<^verbatim>\<open>$set: {"students.$": student}\<close>: the positional operator stands for the first
  array element that the filter matched; that element is replaced by the whole
  \<^verbatim>\<open>student\<close> object of the request.
\<close>

fun set_positional :: "student \<Rightarrow> student list \<Rightarrow> student list" where
  "set_positional p [] = []"
| "set_positional p (x # xs) =
     (if studentId x = studentId p then p # xs else x # set_positional p xs)"

text \<open>
  \<^verbatim>\<open>updateOne\<close> changes the first document of the collection that the filter
  matches and nothing when there is none.
\<close>

fun updateOne :: "string \<Rightarrow> student \<Rightarrow> collection \<Rightarrow> collection" where
  "updateOne sid p [] = []"
| "updateOne sid p (d # ds) =
     (if matches sid (studentId p) d
      then d\<lparr>students := set_positional p (students d)\<rparr> # ds
      else d # updateOne sid p ds)"

fun apply_op :: "op \<Rightarrow> collection \<Rightarrow> collection" where
  "apply_op Drop c = []"
| "apply_op (InsertOne d) c = c @ [d]"
| "apply_op (UpdateOne sid p) c = updateOne sid p c"

text \<open>The collection once the store has applied the commands \<open>ord\<close>, in that order.\<close>

definition settle :: "op list \<Rightarrow> collection \<Rightarrow> collection" where
  "settle ord c = fold apply_op ord c"

text \<open>\<^verbatim>\<open>findOne({schoolId: sid})\<close>: the first document with that \<^verbatim>\<open>schoolId\<close>, or null.\<close>

definition findOne :: "string \<Rightarrow> collection \<Rightarrow> school option" where
  "findOne sid c = find (\<lambda>d. schoolId d = sid) c"

section \<open>The server and its handlers\<close>

text \<open>
  No handler of \<^verbatim>\<open>src/index.js\<close> awaits the promise of a write command. The
  server state therefore holds, beside the collection, the commands that were handed
  to the driver and are not yet applied, in the order they were issued. It also
  records whether \<^verbatim>\<open>mongoose.connect\<close> has completed: until then
  \<^verbatim>\<open>mongoose.connection.db\<close> is undefined.
\<close>

record server =
  db :: collection
  pending :: "op list"
  connected :: bool

datatype error = TypeError

datatype response =
    Sent string
  | SentStudents "student list"
  | Threw error

text \<open>
  What \<^verbatim>\<open>express.json()\<close> leaves in \<^verbatim>\<open>req.body\<close>: an array, or a value that
  \<^verbatim>\<open>for ... of\<close> cannot iterate (a JSON object, or no parsed body). An entry of the
  array is a student object or \<^verbatim>\<open>null\<close>; entries of other shapes are not modelled.
\<close>

datatype entry =
    Null
  | Student student

datatype body =
    Array "entry list"
  | NotIterable

text \<open>
  The loop of the PUT handler, lines 20 to 29: one \<^verbatim>\<open>updateOne\<close> per entry, none
  awaited. In each round \<^verbatim>\<open>mongoose.connection.db.collection\<close> is evaluated first
  and throws a TypeError while the service is not connected; then
  \<^verbatim>\<open>student.studentId\<close> throws a TypeError on a \<^verbatim>\<open>null\<close> entry. A throw ends the
  loop, and the updates of the earlier rounds stay issued.
\<close>

fun put_loop :: "string \<Rightarrow> entry list \<Rightarrow> server \<Rightarrow> error option \<times> server" where
  "put_loop sid [] s = (None, s)"
| "put_loop sid (e # es) s =
     (if \<not> connected s then (Some TypeError, s)
      else case e of
        Null \<Rightarrow> (Some TypeError, s)
      | Student st \<Rightarrow> put_loop sid es (s\<lparr>pending := pending s @ [UpdateOne sid st]\<rparr>))"

text \<open>
  \<^verbatim>\<open>app.put("/schools/:schoolId/students")\<close>, lines 19 to 31. \<^verbatim>\<open>for ... of\<close> throws a
  TypeError on a body it cannot iterate. When the loop ends without a throw the
  answer is sent right after it, in the same turn of the event loop; after a throw
  the caller gets the error instead.
\<close>

definition put_students :: "string \<Rightarrow> body \<Rightarrow> server \<Rightarrow> response \<times> server" where
  "put_students sid b s =
     (case b of
        NotIterable \<Rightarrow> (Threw TypeError, s)
      | Array es \<Rightarrow>
          (case put_loop sid es s of
             (Some e, s') \<Rightarrow> (Threw e, s')
           | (None, s') \<Rightarrow> (Sent ''Students updated'', s')))"

text \<open>The request body that carries a list of student objects, a patch set.\<close>

definition patch_set :: "student list \<Rightarrow> body" where
  "patch_set sts = Array (map Student sts)"

text \<open>
  \<^verbatim>\<open>app.get("/schools/:schoolId/students")\<close>, lines 34 to 39: the result of
  \<^verbatim>\<open>findOne\<close> is awaited, and \<^verbatim>\<open>school.students\<close> on null throws a TypeError, as does
  \<^verbatim>\<open>mongoose.connection.db.collection\<close> while the service is not connected.
\<close>

definition get_students :: "string \<Rightarrow> server \<Rightarrow> response" where
  "get_students sid s =
     (if \<not> connected s then Threw TypeError
      else case findOne sid (db s) of
        None \<Rightarrow> Threw TypeError
      | Some sch \<Rightarrow> SentStudents (students sch))"

text \<open>A response that reports a failure to the caller.\<close>

fun failed :: "response \<Rightarrow> bool" where
  "failed (Threw e) = True"
| "failed r = False"

subsection \<open>Seed data\<close>

text \<open>The template literals of \<^verbatim>\<open>populateDB\<close> print the loop counter in decimal.\<close>

definition digit :: "nat \<Rightarrow> char" where
  "digit d = ''0123456789'' ! d"

function show_nat :: "nat \<Rightarrow> string" where
  "show_nat n = (if n < 10 then [digit n] else show_nat (n div 10) @ [digit (n mod 10)])"
  by pat_completeness auto
termination
  by (relation "measure id") auto

definition seed_student :: "nat \<Rightarrow> student" where
  "seed_student i =
     \<lparr>studentId = ''student'' @ show_nat i,
      attrs = [(''name'', JStr (''Student '' @ show_nat i)),
               (''age'', JNum 20),
               (''email'', JStr (''student'' @ show_nat i @ ''@example.com''))]\<rparr>"

definition seed_school :: school where
  "seed_school =
     \<lparr>schoolId = ''1'',
      students = map seed_student [0..<1000],
      other = [(''name'', JStr ''School 1''),
               (''address'', JStr ''123 Main St''),
               (''city'', JStr ''New York'')]\<rparr>"

text \<open>
  \<^verbatim>\<open>populateDB\<close>, lines 41 to 61: a drop and an insert, neither awaited. It is
  called from the callback of \<^verbatim>\<open>mongoose.connect\<close>, line 15, so the service is
  connected when it runs.
\<close>

definition populateDB :: "server \<Rightarrow> server" where
  "populateDB s = s\<lparr>pending := pending s @ [Drop, InsertOne seed_school]\<rparr>"

text \<open>The value of a top-level field of a school other than its id and its students.\<close>

definition field :: "string \<Rightarrow> school \<Rightarrow> json option" where
  "field name d = map_of (other d) name"

section \<open>Observations on the collection\<close>

text \<open>The keys of a school's students, in array order.\<close>

definition child_keys :: "school \<Rightarrow> string list" where
  "child_keys d = map studentId (students d)"

text \<open>The students of a school whose key no entry of the request body carries.\<close>

definition unpatched :: "student list \<Rightarrow> school \<Rightarrow> student list" where
  "unpatched body d = filter (\<lambda>x. studentId x \<notin> set (map studentId body)) (students d)"

text \<open>
  The student that an update for school \<open>sid\<close> and key \<open>k\<close> addresses: the first
  student with that key in the first school the filter matches.
\<close>

definition find_child :: "string \<Rightarrow> string \<Rightarrow> collection \<Rightarrow> student option" where
  "find_child sid k c =
     (case find (matches sid k) c of
        None \<Rightarrow> None
      | Some d \<Rightarrow> find (\<lambda>x. studentId x = k) (students d))"

subsection \<open>The example of the specification\<close>

definition child :: "string \<Rightarrow> string \<Rightarrow> student" where
  "child k n = \<lparr>studentId = k, attrs = [(''name'', JStr n)]\<rparr>"

definition example_parent :: school where
  "example_parent =
     \<lparr>schoolId = ''1'',
      students = [child ''s0'' ''A'', child ''s1'' ''B''],
      other = [(''version'', JNum 5)]\<rparr>"

definition example_patch :: "student list" where
  "example_patch = [child ''s0'' ''A2'', child ''sX'' ''Z'']"

definition example_server :: server where
  "example_server = \<lparr>db = [example_parent], pending = [], connected = True\<rparr>"

text \<open>
  The server once the store has applied the \<open>n\<close> oldest commands that were not yet
  applied, in the order they were issued.
\<close>

definition progress :: "nat \<Rightarrow> server \<Rightarrow> server" where
  "progress n s = s\<lparr>db := settle (take n (pending s)) (db s), pending := drop n (pending s)\<rparr>"

text \<open>A request body that addresses both students of the example.\<close>

definition both_patch :: "student list" where
  "both_patch = [child ''s0'' ''A2'', child ''s1'' ''B2'']"

text \<open>The collection after \<^verbatim>\<open>populateDB\<close> has taken effect.\<close>

definition seeded_server :: server where
  "seeded_server = \<lparr>db = [seed_school], pending = [], connected = True\<rparr>"

text \<open>A request body with two entries for the same student.\<close>

definition dup_patch :: "student list" where
  "dup_patch = [child ''s0'' ''A2'', child ''s0'' ''A3'']"

text \<open>The example school after the example request.\<close>

definition example_result :: school where
  "example_result = example_parent\<lparr>students := [child ''s0'' ''A2'', child ''s1'' ''B'']\<rparr>"

section \<open>Facts about the update command\<close>

lemma put_loop_students:
  "put_loop sid (map Student sts) s =
     (if connected s \<or> sts = []
      then (None, s\<lparr>pending := pending s @ map (UpdateOne sid) sts\<rparr>)
      else (Some TypeError, s))"
  by (induction sts arbitrary: s) auto

lemma put_students_patch_set:
  "put_students sid (patch_set sts) s =
     (if connected s \<or> sts = []
      then (Sent ''Students updated'', s\<lparr>pending := pending s @ map (UpdateOne sid) sts\<rparr>)
      else (Threw TypeError, s))"
  by (simp add: put_students_def patch_set_def put_loop_students)



lemma error_TypeError: "(e::error) = TypeError"
  by (cases e)



lemma issued_updates:
  assumes "pending s = []"
    and "set ord \<subseteq> set (pending (snd (put_students sid (patch_set body) s)))"
  shows "set ord \<subseteq> UpdateOne sid ` set body"
  using assms by (auto simp: put_students_patch_set split: if_splits)

lemma settle_Nil: "settle [] c = c"
  by (simp add: settle_def)

lemma settle_Cons: "settle (a # ord) c = settle ord (apply_op a c)"
  by (simp add: settle_def)

lemma settle_append: "settle (xs @ ys) c = settle ys (settle xs c)"
  by (simp add: settle_def)

lemma set_positional_keys: "map studentId (set_positional p xs) = map studentId xs"
  by (induction xs) auto

lemma updateOne_keys: "map child_keys (updateOne sid p c) = map child_keys c"
  by (induction c) (auto simp: child_keys_def set_positional_keys)

lemma updateOne_schoolId: "map schoolId (updateOne sid p c) = map schoolId c"
  by (induction c) auto

lemma updateOne_other: "map other (updateOne sid p c) = map other c"
  by (induction c) auto

lemma set_positional_unpatched:
  "studentId p \<in> K \<Longrightarrow>
     filter (\<lambda>x. studentId x \<notin> K) (set_positional p xs) = filter (\<lambda>x. studentId x \<notin> K) xs"
  by (induction xs) auto

lemma updateOne_unpatched:
  "p \<in> set body \<Longrightarrow> map (unpatched body) (updateOne sid p c) = map (unpatched body) c"
  by (induction c) (auto simp: unpatched_def set_positional_unpatched)

lemma settle_updates_keys:
  "set ord \<subseteq> UpdateOne sid ` set body \<Longrightarrow> map child_keys (settle ord c) = map child_keys c"
  by (induction ord arbitrary: c) (auto simp: settle_Nil settle_Cons updateOne_keys)

lemma settle_updates_schoolId:
  "set ord \<subseteq> UpdateOne sid ` set body \<Longrightarrow> map schoolId (settle ord c) = map schoolId c"
  by (induction ord arbitrary: c) (auto simp: settle_Nil settle_Cons updateOne_schoolId)

lemma settle_updates_other:
  "set ord \<subseteq> UpdateOne sid ` set body \<Longrightarrow> map other (settle ord c) = map other c"
  by (induction ord arbitrary: c) (auto simp: settle_Nil settle_Cons updateOne_other)

lemma settle_updates_unpatched:
  "set ord \<subseteq> UpdateOne sid ` set body \<Longrightarrow>
     map (unpatched body) (settle ord c) = map (unpatched body) c"
  by (induction ord arbitrary: c) (auto simp: settle_Nil settle_Cons updateOne_unpatched)

lemma field_other: "map (field name) c = map (\<lambda>kv. map_of kv name) (map other c)"
  by (simp add: field_def)

lemma settle_updates_field:
  "set ord \<subseteq> UpdateOne sid ` set body \<Longrightarrow>
     map (field name) (settle ord c) = map (field name) c"
  by (simp only: field_other settle_updates_other)

lemma updateOne_no_school:
  "sid \<notin> set (map schoolId c) \<Longrightarrow> updateOne sid p c = c"
  by (induction c) (auto simp: matches_def)

lemma settle_no_school:
  "set ord \<subseteq> UpdateOne sid ` set body \<Longrightarrow> sid \<notin> set (map schoolId c) \<Longrightarrow> settle ord c = c"
  by (induction ord arbitrary: c) (auto simp: settle_Nil settle_Cons updateOne_no_school)


lemma matches_set_positional:
  "matches sid k (d\<lparr>students := set_positional p (students d)\<rparr>) = matches sid k d"
  by (simp add: matches_def set_positional_keys)

lemma updateOne_list_ex_matches:
  "list_ex (matches sid k) (updateOne sid' p c) = list_ex (matches sid k) c"
  by (induction c) (auto simp: matches_set_positional)


lemma version_seed_school: "field ''version'' seed_school = None"
  by (simp add: field_def seed_school_def)

lemma schoolId_seed_school: "schoolId seed_school = ''1''"
  by (simp add: seed_school_def)

lemma seed_student_first_key: "studentId (seed_student 0) = ''student0''"
  by (simp add: seed_student_def digit_def)

lemma seed_school_has_first:
  "matches ''1'' ''student0'' seed_school"
proof -
  have "seed_student 0 \<in> set (students seed_school)"
    by (simp add: seed_school_def)
  then have "studentId (seed_student 0) \<in> set (map studentId (students seed_school))"
    by (metis image_eqI set_map)
  then show ?thesis
    by (simp add: matches_def seed_student_first_key schoolId_seed_school)
qed

lemma settle_list_ex_matches:
  "set ord \<subseteq> UpdateOne sid ` set body \<Longrightarrow>
     list_ex (matches sid' k) (settle ord c) = list_ex (matches sid' k) c"
  by (induction ord arbitrary: c) (auto simp: settle_Nil settle_Cons updateOne_list_ex_matches)

subsection \<open>The student an update addresses\<close>

lemma find_set_positional_same:
  "studentId p \<in> set (map studentId xs) \<Longrightarrow>
     find (\<lambda>x. studentId x = studentId p) (set_positional p xs) = Some p"
  by (induction xs) auto

lemma find_set_positional_other:
  "k \<noteq> studentId p \<Longrightarrow>
     find (\<lambda>x. studentId x = k) (set_positional p xs) = find (\<lambda>x. studentId x = k) xs"
  by (induction xs) auto

lemma find_child_updateOne_same:
  "list_ex (matches sid (studentId p)) c \<Longrightarrow>
     find_child sid (studentId p) (updateOne sid p c) = Some p"
proof (induction c)
  case Nil
  then show ?case by simp
next
  case (Cons d ds)
  show ?case
  proof (cases "matches sid (studentId p) d")
    case True
    then have "studentId p \<in> set (map studentId (students d))"
      by (simp add: matches_def)
    then show ?thesis
      using True by (simp add: find_child_def matches_set_positional find_set_positional_same)
  next
    case False
    then show ?thesis
      using Cons by (simp add: find_child_def)
  qed
qed

lemma find_child_updateOne_other:
  "k \<noteq> studentId p \<Longrightarrow> find_child sid k (updateOne sid p c) = find_child sid k c"
proof (induction c)
  case Nil
  then show ?case by simp
next
  case (Cons d ds)
  show ?case
  proof (cases "matches sid (studentId p) d")
    case True
    then show ?thesis
      using Cons.prems
      by (simp add: find_child_def matches_set_positional find_set_positional_other)
  next
    case False
    then show ?thesis
      using Cons by (simp add: find_child_def)
  qed
qed

lemma settle_in_order_last:
  assumes "list_ex (matches sid k) c"
    and "filter (\<lambda>p. studentId p = k) body \<noteq> []"
  shows "find_child sid k (settle (map (UpdateOne sid) body) c)
           = Some (last (filter (\<lambda>p. studentId p = k) body))"
  using assms(2)
proof (induction body rule: rev_induct)
  case Nil
  then show ?case by simp
next
  case (snoc p body)
  have step: "settle (map (UpdateOne sid) (body @ [p])) c
      = updateOne sid p (settle (map (UpdateOne sid) body) c)"
    by (simp add: settle_append settle_Cons settle_Nil)
  show ?case
  proof (cases "studentId p = k")
    case True
    have "set (map (UpdateOne sid) body) \<subseteq> UpdateOne sid ` set body"
      by simp
    then have "list_ex (matches sid k) (settle (map (UpdateOne sid) body) c)
        = list_ex (matches sid k) c"
      by (rule settle_list_ex_matches)
    then have "list_ex (matches sid k) (settle (map (UpdateOne sid) body) c)"
      using assms(1) by simp
    then have "find_child sid k (updateOne sid p (settle (map (UpdateOne sid) body) c)) = Some p"
      using True find_child_updateOne_same by blast
    then show ?thesis
      unfolding step using True by simp
  next
    case False
    then have "filter (\<lambda>p. studentId p = k) body \<noteq> []"
      using snoc.prems by simp
    then have "find_child sid k (settle (map (UpdateOne sid) body) c)
        = Some (last (filter (\<lambda>p. studentId p = k) body))"
      by (rule snoc.IH)
    moreover have "k \<noteq> studentId p"
      using False by simp
    ultimately show ?thesis
      unfolding step using False by (simp add: find_child_updateOne_other)
  qed
qed

subsection \<open>Updates absorb and commute\<close>

lemma set_positional_absorb:
  "studentId p = studentId q \<Longrightarrow> set_positional q (set_positional p xs) = set_positional q xs"
  by (induction xs) auto

lemma set_positional_commute:
  "studentId p \<noteq> studentId q \<Longrightarrow>
     set_positional p (set_positional q xs) = set_positional q (set_positional p xs)"
  by (induction xs) auto

lemma updateOne_absorb:
  "studentId p = studentId q \<Longrightarrow> updateOne sid q (updateOne sid p c) = updateOne sid q c"
  by (induction c) (auto simp: matches_set_positional set_positional_absorb)

lemma updateOne_commute:
  "studentId p \<noteq> studentId q \<Longrightarrow>
     updateOne sid p (updateOne sid q c) = updateOne sid q (updateOne sid p c)"
  by (induction c) (auto simp: matches_set_positional set_positional_commute)

lemma settle_absorb:
  "set ord \<subseteq> UpdateOne sid ` set body \<Longrightarrow>
     updateOne sid p (settle ord (updateOne sid p c)) = updateOne sid p (settle ord c)"
proof (induction ord arbitrary: c)
  case Nil
  then show ?case
    by (simp add: settle_Nil updateOne_absorb)
next
  case (Cons a ord)
  from Cons.prems obtain q where a: "a = UpdateOne sid q"
    by auto
  have rest: "set ord \<subseteq> UpdateOne sid ` set body"
    using Cons.prems by simp
  show ?case
  proof (cases "studentId p = studentId q")
    case True
    then show ?thesis
      by (simp add: a settle_Cons updateOne_absorb)
  next
    case False
    then have "updateOne sid q (updateOne sid p c) = updateOne sid p (updateOne sid q c)"
      by (simp add: updateOne_commute)
    then show ?thesis
      using Cons.IH[OF rest, of "updateOne sid q c"] by (simp add: a settle_Cons)
  qed
qed

lemma settle_twice:
  "set ord \<subseteq> UpdateOne sid ` set body \<Longrightarrow> settle ord (settle ord c) = settle ord c"
proof (induction ord arbitrary: c rule: rev_induct)
  case Nil
  then show ?case by (simp add: settle_Nil)
next
  case (snoc a ord)
  from snoc.prems obtain p where a: "a = UpdateOne sid p"
    by auto
  have rest: "set ord \<subseteq> UpdateOne sid ` set body"
    using snoc.prems by simp
  have "settle (ord @ [a]) (settle (ord @ [a]) c)
      = updateOne sid p (settle ord (updateOne sid p (settle ord c)))"
    by (simp add: a settle_append settle_Cons settle_Nil)
  also have "\<dots> = updateOne sid p (settle ord (settle ord c))"
    using rest by (rule settle_absorb)
  also have "\<dots> = updateOne sid p (settle ord c)"
    using snoc.IH[OF rest] by simp
  also have "\<dots> = settle (ord @ [a]) c"
    by (simp add: a settle_append settle_Cons settle_Nil)
  finally show ?case .
qed

section \<open>The update endpoint\<close>




text \<open>
  C4. Whichever of the updates issued by a PUT the store has applied, and in whichever
  order, every school has as many students as before, with the same keys at the same
  positions, and the students whose key no entry of the body carries are unchanged.
\<close>

theorem put_preserves_order_and_length:
  assumes "pending s = []"
    and "set ord \<subseteq> set (pending (snd (put_students sid (patch_set body) s)))"
  shows "map child_keys (settle ord (db s)) = map child_keys (db s) \<and>
         map (length \<circ> students) (settle ord (db s)) = map (length \<circ> students) (db s) \<and>
         map (unpatched body) (settle ord (db s)) = map (unpatched body) (db s)"
proof -
  have upd: "set ord \<subseteq> UpdateOne sid ` set body"
    using assms by (rule issued_updates)
  have keys: "map child_keys (settle ord (db s)) = map child_keys (db s)"
    using upd by (rule settle_updates_keys)
  have "map (length \<circ> child_keys) (settle ord (db s)) = map (length \<circ> child_keys) (db s)"
    using keys by (metis map_map)
  then have len: "map (length \<circ> students) (settle ord (db s)) = map (length \<circ> students) (db s)"
    by (simp add: child_keys_def comp_def)
  have "map (unpatched body) (settle ord (db s)) = map (unpatched body) (db s)"
    using upd by (rule settle_updates_unpatched)
  with keys len show ?thesis by simp
qed

theorem put_preserves_order_and_length_witness:
  "pending example_server = [] \<and>
   set [UpdateOne ''1'' (child ''sX'' ''Z''), UpdateOne ''1'' (child ''s0'' ''A2'')]
     \<subseteq> set (pending (snd (put_students ''1'' (patch_set example_patch) example_server))) \<and>
   map child_keys
     (settle [UpdateOne ''1'' (child ''sX'' ''Z''), UpdateOne ''1'' (child ''s0'' ''A2'')]
        (db example_server)) = [''s0'', ''s1''] # [] \<and>
   map (unpatched example_patch)
     (settle [UpdateOne ''1'' (child ''sX'' ''Z''), UpdateOne ''1'' (child ''s0'' ''A2'')]
        (db example_server)) = [child ''s1'' ''B''] # []"
  using put_preserves_order_and_length
    [of example_server "[UpdateOne ''1'' (child ''sX'' ''Z''), UpdateOne ''1'' (child ''s0'' ''A2'')]"
        "''1''" example_patch]
  by (simp add: example_server_def example_parent_def example_patch_def put_students_patch_set
      child_keys_def unpatched_def child_def)

section \<open>What the update endpoint does not do\<close>

text \<open>
  C1, at a request that addresses both students of the example school: the two
  updates are two commands, and after the store has applied the first of them a GET
  returns a list in which one student is patched and the other is not. That list is
  neither the list before the request nor the list with the whole body applied.
\<close>

theorem put_partial_batch_observable:
  "get_students ''1'' example_server
     = SentStudents [child ''s0'' ''A'', child ''s1'' ''B''] \<and>
   get_students ''1'' (progress 1 (snd (put_students ''1'' (patch_set both_patch) example_server)))
     = SentStudents [child ''s0'' ''A2'', child ''s1'' ''B''] \<and>
   get_students ''1'' (progress 2 (snd (put_students ''1'' (patch_set both_patch) example_server)))
     = SentStudents [child ''s0'' ''A2'', child ''s1'' ''B2''] \<and>
   get_students ''1'' (progress 1 (snd (put_students ''1'' (patch_set both_patch) example_server)))
     \<noteq> get_students ''1'' example_server \<and>
   get_students ''1'' (progress 1 (snd (put_students ''1'' (patch_set both_patch) example_server)))
     \<noteq> get_students ''1'' (progress 2 (snd (put_students ''1'' (patch_set both_patch) example_server)))"
  by (simp add: get_students_def findOne_def progress_def put_students_patch_set both_patch_def
      example_server_def example_parent_def settle_def matches_def child_def)

text \<open>
  C2, as the claim states it, at the seeded collection and at the example school: the
  seeded school has no version field before or after a PUT whose update matched, and
  the version 5 of the example school is still 5 after the PUT.
\<close>

theorem seeded_version_stays_absent:
  "field ''version'' seed_school = None \<and>
   list_ex (matches ''1'' (studentId (child ''student0'' ''X''))) (db seeded_server) \<and>
   map (field ''version'')
     (db (progress 1 (snd (put_students ''1'' (patch_set [child ''student0'' ''X'']) seeded_server))))
     = [None] \<and>
   map (field ''version'') (db example_server) = [Some (JNum 5)] \<and>
   map (field ''version'')
     (db (progress 2 (snd (put_students ''1'' (patch_set both_patch) example_server))))
     = [Some (JNum 5)]"
proof -
  have "set [UpdateOne ''1'' (child ''student0'' ''X'')]
      \<subseteq> UpdateOne ''1'' ` set [child ''student0'' ''X'']"
    by simp
  then have "map (field ''version'') (settle [UpdateOne ''1'' (child ''student0'' ''X'')] [seed_school])
      = map (field ''version'') [seed_school]"
    by (rule settle_updates_field)
  then have "map (field ''version'')
     (db (progress 1 (snd (put_students ''1'' (patch_set [child ''student0'' ''X'']) seeded_server))))
     = [None]"
    by (simp add: progress_def put_students_patch_set seeded_server_def version_seed_school)
  moreover have "map (field ''version'')
     (db (progress 2 (snd (put_students ''1'' (patch_set both_patch) example_server))))
     = [Some (JNum 5)]"
    by (simp add: progress_def put_students_patch_set both_patch_def example_server_def
        example_parent_def settle_def matches_def child_def field_def)
  moreover have "map (field ''version'') (db example_server) = [Some (JNum 5)]"
    by (simp add: example_server_def example_parent_def field_def)
  moreover have "list_ex (matches ''1'' (studentId (child ''student0'' ''X''))) (db seeded_server)"
    by (simp add: seeded_server_def child_def seed_school_has_first)
  ultimately show ?thesis
    by (simp add: version_seed_school)
qed

text \<open>
  C2, amended. The code keeps no version counter: \<^verbatim>\<open>populateDB\<close> writes a school
  without one, and whichever of the updates issued by a PUT the store has applied, in
  whichever order, every top-level field of every school other than its students has
  the value it had before.
\<close>

theorem put_leaves_top_level_fields:
  assumes "pending s = []"
    and "set ord \<subseteq> set (pending (snd (put_students sid (patch_set body) s)))"
  shows "map (field name) (settle ord (db s)) = map (field name) (db s) \<and>
         map schoolId (settle ord (db s)) = map schoolId (db s) \<and>
         pending (populateDB s) = [Drop, InsertOne seed_school] \<and>
         settle (pending (populateDB s)) (db s) = [seed_school] \<and>
         field ''version'' seed_school = None"
proof -
  have upd: "set ord \<subseteq> UpdateOne sid ` set body"
    using assms by (rule issued_updates)
  have "map (field name) (settle ord (db s)) = map (field name) (db s)"
    using upd by (rule settle_updates_field)
  moreover have "map schoolId (settle ord (db s)) = map schoolId (db s)"
    using upd by (rule settle_updates_schoolId)
  moreover have "pending (populateDB s) = [Drop, InsertOne seed_school]"
    using assms(1) by (simp add: populateDB_def)
  moreover have "settle (pending (populateDB s)) (db s) = [seed_school]"
    using assms(1) by (simp add: populateDB_def settle_def)
  ultimately show ?thesis
    by (simp add: version_seed_school)
qed

theorem put_leaves_top_level_fields_witness:
  "pending example_server = [] \<and>
   set [UpdateOne ''1'' (child ''s0'' ''A2'')]
     \<subseteq> set (pending (snd (put_students ''1'' (patch_set example_patch) example_server))) \<and>
   map (field ''version'') (settle [UpdateOne ''1'' (child ''s0'' ''A2'')] (db example_server))
     = [Some (JNum 5)] \<and>
   map schoolId (settle [UpdateOne ''1'' (child ''s0'' ''A2'')] (db example_server)) = [''1'']"
  using put_leaves_top_level_fields
    [of example_server "[UpdateOne ''1'' (child ''s0'' ''A2'')]" "''1''" example_patch "''version''"]
  by (simp add: example_server_def example_parent_def example_patch_def put_students_patch_set
      field_def)

text \<open>
  C3, as the claim states it, at a school id that the seeded collection does not hold:
  the PUT does not fail, it answers "Students updated".
\<close>

theorem put_absent_parent_no_error:
  "''2'' \<notin> set (map schoolId (db seeded_server)) \<and>
   \<not> failed (fst (put_students ''2'' (patch_set example_patch) seeded_server)) \<and>
   fst (put_students ''2'' (patch_set example_patch) seeded_server) = Sent ''Students updated''"
  by (simp add: put_students_patch_set seeded_server_def schoolId_seed_school)

text \<open>
  C3, amended. For a school id that no stored school has, the PUT of a patch set
  answers "Students updated" when the service is connected, and the updates it
  issued, however many of them the store has applied and in whichever order, leave
  the collection as it was.
\<close>

theorem put_absent_parent_reports_success:
  assumes "pending s = []"
    and "sid \<notin> set (map schoolId (db s))"
    and "set ord \<subseteq> set (pending (snd (put_students sid (patch_set body) s)))"
  shows "(connected s \<longrightarrow>
            fst (put_students sid (patch_set body) s) = Sent ''Students updated'' \<and>
            \<not> failed (fst (put_students sid (patch_set body) s))) \<and>
         settle ord (db s) = db s"
proof -
  have "set ord \<subseteq> UpdateOne sid ` set body"
    using assms(1,3) by (rule issued_updates)
  then have "settle ord (db s) = db s"
    using assms(2) by (rule settle_no_school)
  then show ?thesis
    by (simp add: put_students_patch_set)
qed

theorem put_absent_parent_reports_success_witness:
  "pending example_server = [] \<and>
   ''2'' \<notin> set (map schoolId (db example_server)) \<and>
   set (pending (snd (put_students ''2'' (patch_set example_patch) example_server)))
     \<subseteq> set (pending (snd (put_students ''2'' (patch_set example_patch) example_server))) \<and>
   connected example_server \<and>
   fst (put_students ''2'' (patch_set example_patch) example_server) = Sent ''Students updated'' \<and>
   settle (pending (snd (put_students ''2'' (patch_set example_patch) example_server))) (db example_server)
     = [example_parent]"
  using put_absent_parent_reports_success
    [of example_server "''2''" "pending (snd (put_students ''2'' (patch_set example_patch) example_server))"
        example_patch]
  by (simp add: example_server_def example_parent_def)

section \<open>What a request does to the students\<close>



text \<open>
  C5, as the claim states it, at a body with two entries for student s0 of the example
  school: the handler awaits neither update, and when the store applies the second
  before the first, the student ends with the attributes of the first entry.
\<close>

theorem last_entry_can_lose:
  "mset (rev (pending (snd (put_students ''1'' (patch_set dup_patch) example_server))))
     = mset (pending (snd (put_students ''1'' (patch_set dup_patch) example_server))) \<and>
   last (filter (\<lambda>p. studentId p = ''s0'') dup_patch) = child ''s0'' ''A3'' \<and>
   find_child ''1'' ''s0''
     (settle (rev (pending (snd (put_students ''1'' (patch_set dup_patch) example_server))))
        (db example_server))
     = Some (child ''s0'' ''A2'') \<and>
   child ''s0'' ''A2'' \<noteq> child ''s0'' ''A3''"
  by (simp add: put_students_patch_set dup_patch_def example_server_def example_parent_def
      settle_def matches_def child_def find_child_def)

text \<open>
  C5, amended. When the service is connected and the store applies the updates of a
  request in the order the handler issued them, a student that the request addresses
  ends with the attributes of the last entry of the body that carries its key.
\<close>

theorem last_entry_wins_in_issue_order:
  assumes "pending s = []"
    and "connected s"
    and "list_ex (matches sid k) (db s)"
    and "filter (\<lambda>p. studentId p = k) body \<noteq> []"
  shows "find_child sid k (db (progress (length body) (snd (put_students sid (patch_set body) s))))
           = Some (last (filter (\<lambda>p. studentId p = k) body))"
proof -
  have "db (progress (length body) (snd (put_students sid (patch_set body) s)))
      = settle (map (UpdateOne sid) body) (db s)"
    using assms(1,2) by (simp add: progress_def put_students_patch_set)
  then show ?thesis
    using settle_in_order_last[OF assms(3,4)] by simp
qed

theorem last_entry_wins_in_issue_order_witness:
  "pending example_server = [] \<and>
   connected example_server \<and>
   list_ex (matches ''1'' ''s0'') (db example_server) \<and>
   filter (\<lambda>p. studentId p = ''s0'') dup_patch \<noteq> [] \<and>
   find_child ''1'' ''s0''
     (db (progress (length dup_patch) (snd (put_students ''1'' (patch_set dup_patch) example_server))))
     = Some (child ''s0'' ''A3'')"
  using last_entry_wins_in_issue_order [of example_server "''1''" "''s0''" dup_patch]
  by (simp add: example_server_def example_parent_def dup_patch_def matches_def child_def)

text \<open>
  C7, as the claim states it, at the example of the specification: the answer is the
  text "Students updated", which carries no count and no list of skipped keys, and
  the version of the school is 5 after the request, not 6.
\<close>

theorem put_example_answer_and_version:
  "fst (put_students ''1'' (patch_set example_patch) example_server) = Sent ''Students updated'' \<and>
   map (field ''version'')
     (db (progress 2 (snd (put_students ''1'' (patch_set example_patch) example_server))))
     = [Some (JNum 5)] \<and>
   map (field ''version'')
     (db (progress 2 (snd (put_students ''1'' (patch_set example_patch) example_server))))
     \<noteq> [Some (JNum 6)]"
  by (simp add: put_students_patch_set progress_def example_patch_def example_server_def
      example_parent_def settle_def matches_def child_def field_def)

text \<open>
  C7, amended. Every PUT that does not fail, whatever its body and the state of the
  service, answers with the fixed text "Students updated". For the example the
  students become s0 with name A2 and s1 unchanged, in either order of the two
  updates, and the other fields of the school, its version among them, stay as they
  were.
\<close>

theorem put_result_is_fixed_text:
  assumes "\<not> failed (fst (put_students sid b s))"
  shows "fst (put_students sid b s) = Sent ''Students updated'' \<and>
         settle (pending (snd (put_students ''1'' (patch_set example_patch) example_server)))
             (db example_server)
           = [example_result] \<and>
         settle (rev (pending (snd (put_students ''1'' (patch_set example_patch) example_server))))
             (db example_server)
           = [example_result] \<and>
         students example_result = [child ''s0'' ''A2'', child ''s1'' ''B''] \<and>
         other example_result = other example_parent"
proof -
  have "fst (put_students sid b s) = Sent ''Students updated''"
    using assms
    by (cases b; cases "put_loop sid (case b of Array es \<Rightarrow> es | NotIterable \<Rightarrow> []) s")
      (auto simp: put_students_def split: option.splits)
  then show ?thesis
    by (simp add: put_students_patch_set example_patch_def example_server_def example_result_def
        example_parent_def settle_def matches_def child_def)
qed

theorem put_result_is_fixed_text_witness:
  "\<not> failed (fst (put_students ''1'' (patch_set example_patch) example_server)) \<and>
   fst (put_students ''1'' (patch_set example_patch) example_server) = Sent ''Students updated'' \<and>
   settle (pending (snd (put_students ''1'' (patch_set example_patch) example_server)))
       (db example_server)
     = [example_result]"
  using put_result_is_fixed_text [of "''1''" "patch_set example_patch" example_server]
  by (simp add: put_students_patch_set example_server_def)

text \<open>
  C8, as the claim states it, at the example school and at the seeded school: after the
  same request has been applied twice the version of the example school is 5, as
  before, not 7, and the seeded school has no version at all. Moreover a body with
  two entries for one student, applied once in the order issued and then again in the
  opposite order, does not give the collection of the first application.
\<close>

theorem twice_version_unchanged:
  "map (field ''version'') (db example_server) = [Some (JNum 5)] \<and>
   map (field ''version'')
     (db (progress 2 (snd (put_students ''1'' (patch_set both_patch)
        (progress 2 (snd (put_students ''1'' (patch_set both_patch) example_server)))))))
     = [Some (JNum 5)] \<and>
   map (field ''version'')
     (db (progress 2 (snd (put_students ''1'' (patch_set both_patch)
        (progress 2 (snd (put_students ''1'' (patch_set both_patch) example_server)))))))
     \<noteq> [Some (JNum 7)] \<and>
   field ''version'' seed_school = None \<and>
   settle (rev (pending (snd (put_students ''1'' (patch_set dup_patch) example_server))))
      (settle (pending (snd (put_students ''1'' (patch_set dup_patch) example_server))) (db example_server))
     \<noteq> settle (pending (snd (put_students ''1'' (patch_set dup_patch) example_server))) (db example_server)"
  by (simp add: put_students_patch_set progress_def both_patch_def dup_patch_def example_server_def
      example_parent_def settle_def matches_def child_def field_def seed_school_def)

text \<open>
  C8, amended. When the store applies the updates of a request in the same order both
  times, in particular in the order issued, applying the request twice gives the
  collection that applying it once gives. No top-level field of a school changes, so
  no version counts the two requests.
\<close>

theorem repeated_put_same_children:
  assumes "pending s = []"
    and "mset ord = mset (pending (snd (put_students sid (patch_set body) s)))"
  shows "settle ord (settle ord (db s)) = settle ord (db s) \<and>
         db (progress (length body) (snd (put_students sid (patch_set body)
               (progress (length body) (snd (put_students sid (patch_set body) s))))))
           = db (progress (length body) (snd (put_students sid (patch_set body) s))) \<and>
         map (field name) (settle ord (settle ord (db s))) = map (field name) (db s)"
proof -
  have "set ord = set (pending (snd (put_students sid (patch_set body) s)))"
    using assms(2) by (rule mset_eq_setD)
  then have "set ord \<subseteq> set (pending (snd (put_students sid (patch_set body) s)))"
    by simp
  with assms(1) have upd: "set ord \<subseteq> UpdateOne sid ` set body"
    by (rule issued_updates)
  have twice: "settle ord (settle ord (db s)) = settle ord (db s)"
    using upd by (rule settle_twice)
  have "set (map (UpdateOne sid) body) \<subseteq> UpdateOne sid ` set body"
    by simp
  then have "settle (map (UpdateOne sid) body) (settle (map (UpdateOne sid) body) (db s))
      = settle (map (UpdateOne sid) body) (db s)"
    by (rule settle_twice)
  then have in_order: "db (progress (length body) (snd (put_students sid (patch_set body)
               (progress (length body) (snd (put_students sid (patch_set body) s))))))
           = db (progress (length body) (snd (put_students sid (patch_set body) s)))"
    using assms(1)
    by (cases "connected s") (simp_all add: progress_def put_students_patch_set settle_Nil)
  have "map (field name) (settle ord (db s)) = map (field name) (db s)"
    using upd by (rule settle_updates_field)
  with twice in_order show ?thesis
    by simp
qed

theorem repeated_put_same_children_witness:
  "pending example_server = [] \<and>
   mset (rev (pending (snd (put_students ''1'' (patch_set dup_patch) example_server))))
     = mset (pending (snd (put_students ''1'' (patch_set dup_patch) example_server))) \<and>
   settle (rev (pending (snd (put_students ''1'' (patch_set dup_patch) example_server))))
      (settle (rev (pending (snd (put_students ''1'' (patch_set dup_patch) example_server))))
         (db example_server))
     = settle (rev (pending (snd (put_students ''1'' (patch_set dup_patch) example_server))))
         (db example_server) \<and>
   db (progress (length dup_patch) (snd (put_students ''1'' (patch_set dup_patch)
         (progress (length dup_patch) (snd (put_students ''1'' (patch_set dup_patch) example_server))))))
     = [example_parent\<lparr>students := [child ''s0'' ''A3'', child ''s1'' ''B'']\<rparr>]"
  using repeated_put_same_children
    [of example_server "rev (pending (snd (put_students ''1'' (patch_set dup_patch) example_server)))"
        "''1''" dup_patch "''version''"]
  by (simp add: put_students_patch_set progress_def dup_patch_def example_server_def
      example_parent_def settle_def matches_def child_def)

section \<open>The read endpoint\<close>

lemma findOne_absent: "sid \<notin> set (map schoolId c) \<Longrightarrow> findOne sid c = None"
  by (induction c) (auto simp: findOne_def)

text \<open>
  C10. A GET whose \<^verbatim>\<open>schoolId\<close> matches no stored school finds null, and the
  handler throws a TypeError at \<^verbatim>\<open>school.students\<close>: the caller gets no list of
  students and no other result.
\<close>

theorem get_students_absent_throws:
  "sid \<notin> set (map schoolId (db s)) \<Longrightarrow>
     findOne sid (db s) = None \<and> get_students sid s = Threw TypeError"
  by (simp add: get_students_def findOne_absent)

theorem get_students_absent_throws_witness:
  "''2'' \<notin> set (map schoolId (db seeded_server)) \<and>
   findOne ''2'' (db seeded_server) = None \<and>
   get_students ''2'' seeded_server = Threw TypeError"
  using get_students_absent_throws [of "''2''" seeded_server]
  by (simp add: seeded_server_def schoolId_seed_school)

end
